theory Spec2Isabelle
  imports Main
begin

section \<open>Data model of \<^verbatim>\<open>src/app-check/index.ts\<close>\<close>

text \<open>
  The module keeps three pieces of process-wide state: the \<^verbatim>\<open>AppCheckMap\<close> (a
  \<^verbatim>\<open>WeakMap\<close> from Firebase apps to App Check clients), the global
  \<^verbatim>\<open>self.FIREBASE_APPCHECK_DEBUG_TOKEN\<close>, and what each Vue app has provided under
  \<^verbatim>\<open>AppCheckTokenInjectSymbol\<close>. Objects are compared by identity in the source,
  so a Firebase app, a Vue app and an App Check client are opaque identities here, and a
  \<^verbatim>\<open>Ref\<close> is an index into a store of cells.
\<close>

type_synonym firebase_app = nat
type_synonym vue_app = nat
type_synonym app_check = nat
type_synonym ref_id = nat

text \<open>\<^verbatim>\<open>debug?: boolean | string\<close>; an absent option is \<open>None\<close>.\<close>

datatype debug_value = DebugBool bool | DebugString string

record AppCheckOptions =
  provider :: nat
  isTokenAutoRefreshEnabled :: "bool option"

record VueFireAppCheckOptions = AppCheckOptions +
  debug :: "debug_value option"

record AppCheckTokenResult =
  token :: string

text \<open>An exception thrown by the Firebase SDK or while resolving the Firebase app.\<close>

datatype error = FirebaseError string

text \<open>The settled state of a \<^verbatim>\<open>Promise\<close>.\<close>

datatype 'a promise = Resolved 'a | Rejected error

text \<open>
  The calls that leave the module, in program order: \<^verbatim>\<open>app.provide\<close>, the write to
  the debug global, and the three SDK operations.
\<close>

datatype event =
    Provide vue_app ref_id
  | WriteDebugToken debug_value
  | CallInitializeAppCheck firebase_app "VueFireAppCheckOptions"
  | CallOnTokenChanged app_check ref_id
  | CallGetToken app_check "bool option"

record world =
  AppCheckMap :: "firebase_app \<rightharpoonup> app_check"
  FIREBASE_APPCHECK_DEBUG_TOKEN :: "debug_value option"
  cells :: "string option list"
  provided :: "vue_app \<rightharpoonup> ref_id"
  listeners :: "(app_check \<times> ref_id) list"
  trace :: "event list"

text \<open>
  What the module imports and this file does not define: the constant
  \<^verbatim>\<open>isClient\<close> of \<^verbatim>\<open>../shared\<close>, \<^verbatim>\<open>useFirebaseApp\<close> of \<^verbatim>\<open>../app\<close> (which may
  throw when no app has the name), and the SDK's \<^verbatim>\<open>initializeAppCheck\<close> and
  \<^verbatim>\<open>getToken\<close>. They are parameters. The SDK reads process-wide state (the debug
  global among it), so its two operations take the world at the moment of the call.
\<close>

record env =
  isClient :: bool
  useFirebaseApp :: "string option \<Rightarrow> error + firebase_app"
  initializeAppCheck :: "world \<Rightarrow> firebase_app \<Rightarrow> VueFireAppCheckOptions \<Rightarrow> error + app_check"
  getToken :: "world \<Rightarrow> app_check \<Rightarrow> bool option \<Rightarrow> AppCheckTokenResult promise"

definition init_world :: world where
  "init_world =
     \<lparr>AppCheckMap = Map.empty, FIREBASE_APPCHECK_DEBUG_TOKEN = None, cells = [],
      provided = Map.empty, listeners = [], trace = []\<rparr>"

section \<open>The module's functions\<close>

text \<open>JavaScript truthiness of \<^verbatim>\<open>options.debug\<close>: \<^verbatim>\<open>undefined\<close>, \<^verbatim>\<open>false\<close> and
  the empty string are falsy.\<close>

fun truthy :: "debug_value option \<Rightarrow> bool" where
  "truthy None = False"
| "truthy (Some (DebugBool b)) = b"
| "truthy (Some (DebugString s)) = (s \<noteq> [])"

text \<open>\<^verbatim>\<open>useAppCheckToken\<close>: \<^verbatim>\<open>inject(AppCheckTokenInjectSymbol)!\<close> in the current Vue
  app. The non-null assertion is erased by the compiler: nothing provided gives
  \<^verbatim>\<open>undefined\<close>, here \<open>None\<close>.\<close>

definition useAppCheckToken :: "vue_app \<Rightarrow> world \<Rightarrow> ref_id option" where
  "useAppCheckToken app w = provided w app"

text \<open>
  Lines 54 and 55 of the setup routine: a fresh \<^verbatim>\<open>ref<string>()\<close>, whose value is
  \<^verbatim>\<open>undefined\<close>, provided under the injection symbol.

  Modelled from the spec: \<^verbatim>\<open>getGlobalScope\<close> of \<^verbatim>\<open>../globals\<close> is not among the
  sources; the spec has the setup routine create a reactive cell, so the scope's
  \<^verbatim>\<open>run\<close> is taken to run its callback and return the new ref.
\<close>

definition provide_token :: "vue_app \<Rightarrow> world \<Rightarrow> world" where
  "provide_token app w =
     (let token = length (cells w) in
      w\<lparr>cells := cells w @ [None],
        provided := (provided w)(app \<mapsto> token),
        trace := trace w @ [Provide app token]\<rparr>)"

text \<open>Lines 57 to 60: \<^verbatim>\<open>if (options.debug) self.FIREBASE_APPCHECK_DEBUG_TOKEN = options.debug\<close>.\<close>

definition set_debug_token :: "VueFireAppCheckOptions \<Rightarrow> world \<Rightarrow> world" where
  "set_debug_token options w =
     (case debug options of
        None \<Rightarrow> w
      | Some d \<Rightarrow>
          if truthy (Some d)
          then w\<lparr>FIREBASE_APPCHECK_DEBUG_TOKEN := Some d, trace := trace w @ [WriteDebugToken d]\<rparr>
          else w)"

text \<open>The world in which \<^verbatim>\<open>initializeAppCheck\<close> is called by the setup routine.\<close>

definition before_initialize :: "VueFireAppCheckOptions \<Rightarrow> vue_app \<Rightarrow> world \<Rightarrow> world" where
  "before_initialize options app w = set_debug_token options (provide_token app w)"

text \<open>
  \<^verbatim>\<open>VueFireAppCheck(options)(firebaseApp, app)\<close>. The result is \<open>Inl\<close> when
  \<^verbatim>\<open>initializeAppCheck\<close> throws: what was done before the call stays done, the rest
  is not reached.
\<close>

definition VueFireAppCheck ::
  "env \<Rightarrow> VueFireAppCheckOptions \<Rightarrow> firebase_app \<Rightarrow> vue_app \<Rightarrow> world \<Rightarrow> (error + unit) \<times> world" where
  "VueFireAppCheck e options firebaseApp app w =
     (if \<not> isClient e then (Inr (), w)
      else
        let token = length (cells w);
            w1 = before_initialize options app w;
            w2 = w1\<lparr>trace := trace w1 @ [CallInitializeAppCheck firebaseApp options]\<rparr>
        in case initializeAppCheck e w1 firebaseApp options of
             Inl err \<Rightarrow> (Inl err, w2)
           | Inr appCheck \<Rightarrow>
               (Inr (),
                w2\<lparr>listeners := listeners w2 @ [(appCheck, token)],
                   trace := trace w2 @ [CallOnTokenChanged appCheck token],
                   AppCheckMap := (AppCheckMap w2)(firebaseApp \<mapsto> appCheck)\<rparr>))"

text \<open>The callback given to \<^verbatim>\<open>onTokenChanged\<close>: \<^verbatim>\<open>token.value = newToken.token\<close>.\<close>

definition onTokenChanged_callback :: "ref_id \<Rightarrow> AppCheckTokenResult \<Rightarrow> world \<Rightarrow> world" where
  "onTokenChanged_callback r newToken w = w\<lparr>cells := (cells w)[r := Some (token newToken)]\<rparr>"

text \<open>
  Modelled from the spec: the SDK's side of \<^verbatim>\<open>onTokenChanged\<close> is external. A token
  change of a client invokes, in subscription order, the callback of every listener
  subscribed to that client.
\<close>

fun deliver_to :: "(app_check \<times> ref_id) list \<Rightarrow> app_check \<Rightarrow> AppCheckTokenResult \<Rightarrow> world \<Rightarrow> world" where
  "deliver_to [] c t w = w"
| "deliver_to ((c', r) # ls) c t w =
     deliver_to ls c t (if c' = c then onTokenChanged_callback r t w else w)"

definition deliver :: "app_check \<Rightarrow> AppCheckTokenResult \<Rightarrow> world \<Rightarrow> world" where
  "deliver c t w = deliver_to (listeners w) c t w"

text \<open>\<^verbatim>\<open>useAppCheck(name)\<close>: \<^verbatim>\<open>AppCheckMap.get(useFirebaseApp(name))!\<close>. The non-null
  assertion is erased by the compiler; \<^verbatim>\<open>WeakMap.get\<close> gives \<^verbatim>\<open>undefined\<close> for a
  missing key.\<close>

definition useAppCheck :: "env \<Rightarrow> string option \<Rightarrow> world \<Rightarrow> (error + app_check option) \<times> world" where
  "useAppCheck e name w =
     (case useFirebaseApp e name of
        Inl err \<Rightarrow> (Inl err, w)
      | Inr firebaseApp \<Rightarrow> (Inr (AppCheckMap w firebaseApp), w))"

text \<open>\<^verbatim>\<open>getAppCheckToken(name, forceRefresh)\<close>.\<close>

definition getAppCheckToken ::
  "env \<Rightarrow> string option \<Rightarrow> bool option \<Rightarrow> world \<Rightarrow> (error + AppCheckTokenResult promise) \<times> world" where
  "getAppCheckToken e name forceRefresh w =
     (case useAppCheck e name w of
        (Inl err, w1) \<Rightarrow> (Inl err, w1)
      | (Inr None, w1) \<Rightarrow> (Inr (Resolved \<lparr>token = ''''\<rparr>), w1)
      | (Inr (Some appCheck), w1) \<Rightarrow>
          (Inr (getToken e w1 appCheck forceRefresh),
           w1\<lparr>trace := trace w1 @ [CallGetToken appCheck forceRefresh]\<rparr>))"

section \<open>Runs of the module\<close>

text \<open>What can happen to the module, one action at a time: its three entry points are
  called, or the SDK reports a token change of a client.\<close>

datatype action =
    Setup "VueFireAppCheckOptions" firebase_app vue_app
  | Lookup "string option"
  | FetchToken "string option" "bool option"
  | TokenChanged app_check AppCheckTokenResult

fun step :: "env \<Rightarrow> action \<Rightarrow> world \<Rightarrow> world" where
  "step e (Setup options firebaseApp app) w = snd (VueFireAppCheck e options firebaseApp app w)"
| "step e (Lookup name) w = snd (useAppCheck e name w)"
| "step e (FetchToken name forceRefresh) w = snd (getAppCheckToken e name forceRefresh w)"
| "step e (TokenChanged c t) w = deliver c t w"

fun run :: "env \<Rightarrow> action list \<Rightarrow> world \<Rightarrow> world" where
  "run e [] w = w"
| "run e (a # as) w = run e as (step e a w)"

fun is_setup_of :: "firebase_app \<Rightarrow> action \<Rightarrow> bool" where
  "is_setup_of h (Setup options firebaseApp app) = (firebaseApp = h)"
| "is_setup_of h _ = False"

fun is_change_of :: "app_check \<Rightarrow> action \<Rightarrow> bool" where
  "is_change_of c (TokenChanged c' t) = (c' = c)"
| "is_change_of c _ = False"

fun is_debug_write :: "event \<Rightarrow> bool" where
  "is_debug_write (WriteDebugToken d) = True"
| "is_debug_write _ = False"

text \<open>Every listener writes to a ref that exists: refs are objects in the source, so a
  callback can only hold one that was created before.\<close>

definition wf_world :: "world \<Rightarrow> bool" where
  "wf_world w = list_all (\<lambda>l. snd l < length (cells w)) (listeners w)"

text \<open>The ref \<open>r\<close> exists, is subscribed to the client \<open>c\<close> and to no other client.\<close>

definition mirrors :: "app_check \<Rightarrow> ref_id \<Rightarrow> world \<Rightarrow> bool" where
  "mirrors c r w =
     (r < length (cells w) \<and> wf_world w \<and> (c, r) \<in> set (listeners w) \<and>
      list_all (\<lambda>l. snd l \<noteq> r \<or> fst l = c) (listeners w))"

text \<open>Environments to evaluate in: one Firebase app (number 0) whatever the name, an
  SDK that hands out the client \<open>c\<close> and the token \<^verbatim>\<open>tok\<close>; \<open>client\<close> says whether the
  code runs in a browser.\<close>

definition demo_env :: "bool \<Rightarrow> app_check \<Rightarrow> env" where
  "demo_env client c =
     \<lparr>isClient = client,
      useFirebaseApp = (\<lambda>name. Inr 0),
      initializeAppCheck = (\<lambda>w firebaseApp options. Inr c),
      getToken = (\<lambda>w appCheck forceRefresh. Resolved \<lparr>token = ''tok''\<rparr>)\<rparr>"

definition demo_options :: "debug_value option \<Rightarrow> VueFireAppCheckOptions" where
  "demo_options d = \<lparr>provider = 1, isTokenAutoRefreshEnabled = None, debug = d\<rparr>"

section \<open>What token delivery and the other actions leave alone\<close>

lemmas setup_defs =
  VueFireAppCheck_def before_initialize_def set_debug_token_def provide_token_def

lemma deliver_to_frame:
  "AppCheckMap (deliver_to ls c t w) = AppCheckMap w \<and>
   FIREBASE_APPCHECK_DEBUG_TOKEN (deliver_to ls c t w) = FIREBASE_APPCHECK_DEBUG_TOKEN w \<and>
   provided (deliver_to ls c t w) = provided w \<and>
   listeners (deliver_to ls c t w) = listeners w \<and>
   trace (deliver_to ls c t w) = trace w \<and>
   length (cells (deliver_to ls c t w)) = length (cells w)"
  by (induction ls c t w rule: deliver_to.induct) (auto simp: onTokenChanged_callback_def)

lemma deliver_to_cell:
  "r < length (cells w) \<Longrightarrow>
   cells (deliver_to ls c t w) ! r = (if (c, r) \<in> set ls then Some (token t) else cells w ! r)"
proof (induction ls arbitrary: w)
  case Nil
  then show ?case by simp
next
  case (Cons l ls)
  obtain c' r' where l: "l = (c', r')" by (cases l)
  let ?w = "if c' = c then onTokenChanged_callback r' t w else w"
  have len: "r < length (cells ?w)"
    using Cons.prems by (simp add: onTokenChanged_callback_def)
  have cell: "cells ?w ! r = (if c' = c \<and> r' = r then Some (token t) else cells w ! r)"
    using Cons.prems by (simp add: onTokenChanged_callback_def nth_list_update)
  show ?case
    using Cons.IH [OF len] cell by (auto simp: l)
qed

lemma setup_AppCheckMap_other:
  "firebaseApp \<noteq> h \<Longrightarrow>
   AppCheckMap (snd (VueFireAppCheck e options firebaseApp app w)) h = AppCheckMap w h"
  by (simp add: setup_defs Let_def split: sum.splits option.splits)

lemma step_AppCheckMap:
  "\<not> is_setup_of h a \<Longrightarrow> AppCheckMap (step e a w) h = AppCheckMap w h"
proof (cases a)
  case (Setup options firebaseApp app)
  assume "\<not> is_setup_of h a"
  with Setup have "firebaseApp \<noteq> h" by simp
  then show ?thesis using Setup by (simp add: setup_AppCheckMap_other)
next
  case (Lookup name)
  then show ?thesis by (simp add: useAppCheck_def split: sum.splits)
next
  case (FetchToken name forceRefresh)
  then show ?thesis
    by (simp add: getAppCheckToken_def useAppCheck_def split: sum.splits option.splits)
next
  case (TokenChanged c t)
  then show ?thesis by (simp add: deliver_def deliver_to_frame)
qed

lemma run_AppCheckMap:
  "\<not> list_ex (is_setup_of h) acts \<Longrightarrow> AppCheckMap (run e acts w) h = AppCheckMap w h"
  by (induction acts arbitrary: w) (simp_all add: step_AppCheckMap)

section \<open>The setup routine outside a browser\<close>

text \<open>
  Claim C10. Where \<^verbatim>\<open>isClient\<close> is false the setup routine returns at once and
  changes nothing, whatever the options: the world it leaves is the world it found, so
  the registry, the debug global, what is provided under the injection symbol, the
  listeners and the record of SDK calls are all as before.
\<close>

theorem setup_server_no_effect:
  "\<not> isClient e \<Longrightarrow> VueFireAppCheck e options firebaseApp app w = (Inr (), w)"
  by (simp add: VueFireAppCheck_def)

theorem setup_server_no_effect_witness:
  "\<not> isClient (demo_env False 7) \<and>
   VueFireAppCheck (demo_env False 7) (demo_options (Some (DebugString ''my-token''))) 0 0 init_world
     = (Inr (), init_world)"
  using setup_server_no_effect
    [of "demo_env False 7" "demo_options (Some (DebugString ''my-token''))" 0 0 init_world]
  by (simp add: demo_env_def)

text \<open>
  Claim C1. The claim wants the token cell provided in every environment, only never
  written outside a browser; the comment on line 53 of the source says the same. The
  return on line 51 comes first: after the setup routine has run on a server, a consumer
  that injects the token finds nothing (\<^verbatim>\<open>undefined\<close>), no cell exists, and nothing is
  subscribed. In a browser the same call provides the cell.
\<close>

theorem server_setup_provides_nothing:
  "useAppCheckToken 0
     (snd (VueFireAppCheck (demo_env False 7) (demo_options None) 0 0 init_world)) = None \<and>
   cells (snd (VueFireAppCheck (demo_env False 7) (demo_options None) 0 0 init_world)) = [] \<and>
   listeners (snd (VueFireAppCheck (demo_env False 7) (demo_options None) 0 0 init_world)) = [] \<and>
   useAppCheckToken 0
     (snd (VueFireAppCheck (demo_env True 7) (demo_options None) 0 0 init_world)) = Some 0"
  by (simp add: setup_defs demo_env_def demo_options_def init_world_def useAppCheckToken_def)

section \<open>The debug global\<close>

text \<open>
  Claim C9. When \<^verbatim>\<open>options.debug\<close> is absent or falsy (\<^verbatim>\<open>false\<close> or the empty string),
  the setup routine leaves \<^verbatim>\<open>FIREBASE_APPCHECK_DEBUG_TOKEN\<close> as it was and records no
  write to it, in every environment and whatever the SDK answers.
\<close>

theorem falsy_debug_leaves_global:
  "\<not> truthy (debug options) \<Longrightarrow>
   FIREBASE_APPCHECK_DEBUG_TOKEN (snd (VueFireAppCheck e options firebaseApp app w))
     = FIREBASE_APPCHECK_DEBUG_TOKEN w \<and>
   filter is_debug_write (trace (snd (VueFireAppCheck e options firebaseApp app w)))
     = filter is_debug_write (trace w)"
proof -
  assume falsy: "\<not> truthy (debug options)"
  have skip: "set_debug_token options w' = w'" for w'
    using falsy by (cases "debug options") (simp_all add: set_debug_token_def)
  show ?thesis
    by (simp add: VueFireAppCheck_def before_initialize_def skip provide_token_def Let_def
          split: sum.splits)
qed

theorem falsy_debug_leaves_global_witness:
  "\<not> truthy (debug (demo_options (Some (DebugBool False)))) \<and>
   FIREBASE_APPCHECK_DEBUG_TOKEN
     (snd (VueFireAppCheck (demo_env True 7) (demo_options (Some (DebugBool False))) 0 0 init_world))
     = None \<and>
   filter is_debug_write
     (trace (snd (VueFireAppCheck (demo_env True 7) (demo_options (Some (DebugBool False))) 0 0
        init_world))) = []"
  using falsy_debug_leaves_global
    [of "demo_options (Some (DebugBool False))" "demo_env True 7" 0 0 init_world]
  by (simp add: demo_options_def init_world_def)

section \<open>Fetching the token\<close>

text \<open>
  Claim C3. For a Firebase app with no client in the registry, \<^verbatim>\<open>getAppCheckToken\<close>
  does not fail: it returns a promise already resolved to the empty-string token, calls
  nothing and changes nothing.
\<close>

theorem no_client_gives_empty_token:
  "useFirebaseApp e name = Inr h \<Longrightarrow> AppCheckMap w h = None \<Longrightarrow>
   getAppCheckToken e name forceRefresh w = (Inr (Resolved \<lparr>token = ''''\<rparr>), w)"
  by (simp add: getAppCheckToken_def useAppCheck_def)

theorem no_client_gives_empty_token_witness:
  "useFirebaseApp (demo_env True 7) None = Inr 0 \<and> AppCheckMap init_world 0 = None \<and>
   getAppCheckToken (demo_env True 7) None (Some True) init_world
     = (Inr (Resolved \<lparr>token = ''''\<rparr>), init_world)"
  using no_client_gives_empty_token [of "demo_env True 7" None 0 init_world "Some True"]
  by (simp add: demo_env_def init_world_def)

text \<open>
  Claim C5. For a Firebase app with a registered client, \<^verbatim>\<open>getAppCheckToken\<close> calls the
  SDK's \<^verbatim>\<open>getToken\<close> once, on that client and with the \<^verbatim>\<open>forceRefresh\<close> it was given
  (\<^verbatim>\<open>true\<close>, \<^verbatim>\<open>false\<close> or left out), and returns the SDK's promise as it is, be it
  resolved or rejected.
\<close>

theorem registered_client_delegates:
  "useFirebaseApp e name = Inr h \<Longrightarrow> AppCheckMap w h = Some c \<Longrightarrow>
   getAppCheckToken e name forceRefresh w =
     (Inr (getToken e w c forceRefresh), w\<lparr>trace := trace w @ [CallGetToken c forceRefresh]\<rparr>)"
  by (simp add: getAppCheckToken_def useAppCheck_def)

theorem registered_client_delegates_witness:
  "useFirebaseApp (demo_env True 7) None = Inr 0 \<and>
   AppCheckMap (snd (VueFireAppCheck (demo_env True 7) (demo_options None) 0 0 init_world)) 0 = Some 7 \<and>
   fst (getAppCheckToken (demo_env True 7) None (Some True)
     (snd (VueFireAppCheck (demo_env True 7) (demo_options None) 0 0 init_world)))
     = Inr (Resolved \<lparr>token = ''tok''\<rparr>) \<and>
   trace (snd (getAppCheckToken (demo_env True 7) None (Some True)
     (snd (VueFireAppCheck (demo_env True 7) (demo_options None) 0 0 init_world))))
     = [Provide 0 0, CallInitializeAppCheck 0 (demo_options None), CallOnTokenChanged 7 0,
        CallGetToken 7 (Some True)]"
proof -
  let ?w = "snd (VueFireAppCheck (demo_env True 7) (demo_options None) 0 0 init_world)"
  have r: "useFirebaseApp (demo_env True 7) None = Inr 0"
    by (simp add: demo_env_def)
  have m: "AppCheckMap ?w 0 = Some 7"
    by (simp add: setup_defs demo_env_def demo_options_def init_world_def)
  have t: "trace ?w =
      [Provide 0 0, CallInitializeAppCheck 0 (demo_options None), CallOnTokenChanged 7 0]"
    by (simp add: setup_defs demo_env_def demo_options_def init_world_def)
  have g: "getToken (demo_env True 7) ?w 7 (Some True) = Resolved \<lparr>token = ''tok''\<rparr>"
    by (simp add: demo_env_def)
  show ?thesis
    using registered_client_delegates [OF r m, of "Some True"] r m t g by simp
qed

section \<open>Looking the client up\<close>

text \<open>
  Claim C2, as stated, fails: for a Firebase app that never went through the setup
  routine, \<^verbatim>\<open>useAppCheck\<close> does not throw. In the initial state it returns
  \<^verbatim>\<open>undefined\<close>.
\<close>

theorem lookup_without_setup_counterexample:
  "\<not> isl (fst (useAppCheck (demo_env True 7) None init_world)) \<and>
   fst (useAppCheck (demo_env True 7) None init_world) = Inr None"
  by (simp add: useAppCheck_def demo_env_def init_world_def)

text \<open>
  Claim C2, amended. Whatever has happened since the start, as long as the setup routine
  was never run for the Firebase app that the name resolves to, \<^verbatim>\<open>useAppCheck\<close>
  returns \<^verbatim>\<open>undefined\<close> without failing and leaves the state as it is. (It is
  \<^verbatim>\<open>getAppCheckToken\<close> that tests the result for being absent.)
\<close>

theorem lookup_without_setup_is_absent:
  "useFirebaseApp e name = Inr h \<Longrightarrow> \<not> list_ex (is_setup_of h) acts \<Longrightarrow>
   useAppCheck e name (run e acts init_world) = (Inr None, run e acts init_world)"
  by (simp add: useAppCheck_def run_AppCheckMap init_world_def)

theorem lookup_without_setup_is_absent_witness:
  "useFirebaseApp (demo_env True 7) None = Inr 0 \<and>
   \<not> list_ex (is_setup_of 0)
      [Setup (demo_options None) 1 0, TokenChanged 7 \<lparr>token = ''abc''\<rparr>, FetchToken None None] \<and>
   fst (useAppCheck (demo_env True 7) None
     (run (demo_env True 7)
        [Setup (demo_options None) 1 0, TokenChanged 7 \<lparr>token = ''abc''\<rparr>, FetchToken None None]
        init_world)) = Inr None"
proof -
  have r: "useFirebaseApp (demo_env True 7) None = Inr 0"
    by (simp add: demo_env_def)
  have n: "\<not> list_ex (is_setup_of 0)
      [Setup (demo_options None) 1 0, TokenChanged 7 \<lparr>token = ''abc''\<rparr>, FetchToken None None]"
    by simp
  show ?thesis
    using lookup_without_setup_is_absent [OF r n] r n by simp
qed

section \<open>Running the setup routine again\<close>

text \<open>
  Claim C4, as stated, fails: a second run of the setup routine for a Firebase app that
  already has a client is not rejected. With an SDK that hands out the same client again
  the second run succeeds and subscribes a second cell; with an SDK that hands out
  another client (8 after 7) the entry is overwritten.
\<close>

theorem second_setup_counterexample:
  "AppCheckMap (snd (VueFireAppCheck (demo_env True 7) (demo_options None) 0 0 init_world)) 0
     = Some 7 \<and>
   fst (VueFireAppCheck (demo_env True 7) (demo_options None) 0 0
     (snd (VueFireAppCheck (demo_env True 7) (demo_options None) 0 0 init_world))) = Inr () \<and>
   listeners (snd (VueFireAppCheck (demo_env True 7) (demo_options None) 0 0
     (snd (VueFireAppCheck (demo_env True 7) (demo_options None) 0 0 init_world))))
     = [(7, 0), (7, 1)] \<and>
   fst (VueFireAppCheck (demo_env True 8) (demo_options None) 0 0
     (snd (VueFireAppCheck (demo_env True 7) (demo_options None) 0 0 init_world))) = Inr () \<and>
   AppCheckMap (snd (VueFireAppCheck (demo_env True 8) (demo_options None) 0 0
     (snd (VueFireAppCheck (demo_env True 7) (demo_options None) 0 0 init_world)))) 0 = Some 8"
  by (simp add: setup_defs demo_env_def demo_options_def init_world_def)

text \<open>
  Claim C4, amended. In a browser, the setup routine run for a Firebase app that already
  has a client does what it does the first time: when the SDK's \<^verbatim>\<open>initializeAppCheck\<close>
  returns a client, the routine succeeds and the app's entry becomes that client; only
  when \<^verbatim>\<open>initializeAppCheck\<close> itself throws does the routine fail, with that error, and
  then the registry is as before.
\<close>

theorem setup_overwrites_registration:
  "isClient e \<Longrightarrow> AppCheckMap w h = Some c0 \<Longrightarrow>
   (case initializeAppCheck e (before_initialize options app w) h options of
      Inl err \<Rightarrow>
        fst (VueFireAppCheck e options h app w) = Inl err \<and>
        AppCheckMap (snd (VueFireAppCheck e options h app w)) = AppCheckMap w
    | Inr c \<Rightarrow>
        fst (VueFireAppCheck e options h app w) = Inr () \<and>
        AppCheckMap (snd (VueFireAppCheck e options h app w)) = (AppCheckMap w)(h \<mapsto> c))"
proof -
  have m: "AppCheckMap (before_initialize options app w) = AppCheckMap w"
    by (simp add: before_initialize_def set_debug_token_def provide_token_def Let_def
          split: option.splits)
  assume "isClient e"
  then show ?thesis
    by (simp add: VueFireAppCheck_def Let_def m split: sum.splits)
qed

theorem setup_overwrites_registration_witness:
  "isClient (demo_env True 8) \<and>
   AppCheckMap (snd (VueFireAppCheck (demo_env True 7) (demo_options None) 0 0 init_world)) 0
     = Some 7 \<and>
   fst (VueFireAppCheck (demo_env True 8) (demo_options None) 0 0
     (snd (VueFireAppCheck (demo_env True 7) (demo_options None) 0 0 init_world))) = Inr () \<and>
   AppCheckMap (snd (VueFireAppCheck (demo_env True 8) (demo_options None) 0 0
     (snd (VueFireAppCheck (demo_env True 7) (demo_options None) 0 0 init_world)))) 0 = Some 8"
proof -
  let ?w = "snd (VueFireAppCheck (demo_env True 7) (demo_options None) 0 0 init_world)"
  have b: "isClient (demo_env True 8)" by (simp add: demo_env_def)
  have m: "AppCheckMap ?w 0 = Some 7"
    by (simp add: setup_defs demo_env_def demo_options_def init_world_def)
  have i: "initializeAppCheck (demo_env True 8) (before_initialize (demo_options None) 0 ?w) 0
      (demo_options None) = Inr 8"
    by (simp add: demo_env_def)
  show ?thesis
    using setup_overwrites_registration [OF b m, of "demo_options None" 0] b m i by simp
qed

section \<open>The debug option\<close>

text \<open>
  Claim C6, as stated, fails for the one string that is falsy: with \<^verbatim>\<open>debug: ""\<close> the
  setup routine, in a browser, calls \<^verbatim>\<open>initializeAppCheck\<close> without having written
  the global, which is still unset when the call is made and when the routine returns.
\<close>

theorem empty_debug_string_counterexample:
  "debug (demo_options (Some (DebugString ''''))) = Some (DebugString '''') \<and>
   isClient (demo_env True 7) \<and>
   trace (snd (VueFireAppCheck (demo_env True 7) (demo_options (Some (DebugString ''''))) 0 0
      init_world))
     = [Provide 0 0, CallInitializeAppCheck 0 (demo_options (Some (DebugString ''''))),
        CallOnTokenChanged 7 0] \<and>
   FIREBASE_APPCHECK_DEBUG_TOKEN
     (before_initialize (demo_options (Some (DebugString ''''))) 0 init_world) = None \<and>
   FIREBASE_APPCHECK_DEBUG_TOKEN
     (snd (VueFireAppCheck (demo_env True 7) (demo_options (Some (DebugString ''''))) 0 0
        init_world)) = None"
  by (simp add: setup_defs demo_env_def demo_options_def init_world_def)

text \<open>
  Claim C6, amended. In a browser, when \<^verbatim>\<open>options.debug\<close> is truthy, that is a
  non-empty string or \<^verbatim>\<open>true\<close>, the setup routine writes that very value to the
  global (the literal string, or \<^verbatim>\<open>true\<close> for the generic debug mode) and only then
  calls \<^verbatim>\<open>initializeAppCheck\<close>: the write is the event just before the call, the SDK
  is called in a world where the global holds the value, and it still holds it when the
  routine returns.
\<close>

theorem truthy_debug_written_before_initialize:
  "isClient e \<Longrightarrow> debug options = Some d \<Longrightarrow> truthy (Some d) \<Longrightarrow>
   FIREBASE_APPCHECK_DEBUG_TOKEN (before_initialize options app w) = Some d \<and>
   take 3 (drop (length (trace w)) (trace (snd (VueFireAppCheck e options h app w))))
     = [Provide app (length (cells w)), WriteDebugToken d, CallInitializeAppCheck h options] \<and>
   FIREBASE_APPCHECK_DEBUG_TOKEN (snd (VueFireAppCheck e options h app w)) = Some d"
  by (simp add: setup_defs Let_def split: sum.splits)

theorem truthy_debug_written_before_initialize_witness:
  "isClient (demo_env True 7) \<and>
   debug (demo_options (Some (DebugString ''my-token''))) = Some (DebugString ''my-token'') \<and>
   truthy (Some (DebugString ''my-token'')) \<and>
   FIREBASE_APPCHECK_DEBUG_TOKEN
     (before_initialize (demo_options (Some (DebugString ''my-token''))) 0 init_world)
     = Some (DebugString ''my-token'') \<and>
   take 3 (trace (snd (VueFireAppCheck (demo_env True 7)
       (demo_options (Some (DebugString ''my-token''))) 0 0 init_world)))
     = [Provide 0 0, WriteDebugToken (DebugString ''my-token''),
        CallInitializeAppCheck 0 (demo_options (Some (DebugString ''my-token'')))] \<and>
   FIREBASE_APPCHECK_DEBUG_TOKEN (snd (VueFireAppCheck (demo_env True 7)
       (demo_options (Some (DebugString ''my-token''))) 0 0 init_world))
     = Some (DebugString ''my-token'')"
proof -
  have b: "isClient (demo_env True 7)" by (simp add: demo_env_def)
  have d: "debug (demo_options (Some (DebugString ''my-token''))) = Some (DebugString ''my-token'')"
    by (simp add: demo_options_def)
  have t: "truthy (Some (DebugString ''my-token''))" by simp
  have l: "length (trace init_world) = 0" "length (cells init_world) = 0"
    by (simp_all add: init_world_def)
  show ?thesis
    using truthy_debug_written_before_initialize [OF b d t, of 0 init_world 0] b d l by simp
qed

section \<open>The token mirror\<close>

lemma setup_cells:
  "cells (snd (VueFireAppCheck e options h app w)) =
     (if isClient e then cells w @ [None] else cells w)"
  by (simp add: setup_defs Let_def split: sum.splits option.splits)

lemma setup_listeners:
  "isClient e \<Longrightarrow>
   listeners (snd (VueFireAppCheck e options h app w)) =
     (case initializeAppCheck e (before_initialize options app w) h options of
        Inl err \<Rightarrow> listeners w
      | Inr c \<Rightarrow> listeners w @ [(c, length (cells w))])"
  by (simp add: setup_defs Let_def split: sum.splits option.splits)

lemma wf_init_world: "wf_world init_world"
  by (simp add: wf_world_def init_world_def)

lemma wf_setup:
  assumes "wf_world w"
  shows "wf_world (snd (VueFireAppCheck e options h app w))"
proof (cases "isClient e")
  case False
  then show ?thesis using assms by (simp add: VueFireAppCheck_def)
next
  case True
  show ?thesis
    using assms
    by (cases "initializeAppCheck e (before_initialize options app w) h options")
       (auto simp: wf_world_def setup_cells setup_listeners True list_all_iff)
qed

lemma wf_step: "wf_world w \<Longrightarrow> wf_world (step e a w)"
proof (cases a)
  case (Setup options firebaseApp app)
  assume "wf_world w"
  then show ?thesis using Setup by (simp add: wf_setup)
next
  case (Lookup name)
  assume "wf_world w"
  then show ?thesis using Lookup by (simp add: useAppCheck_def split: sum.splits)
next
  case (FetchToken name forceRefresh)
  assume "wf_world w"
  then show ?thesis using FetchToken
    by (simp add: getAppCheckToken_def useAppCheck_def wf_world_def
          split: sum.splits option.splits)
next
  case (TokenChanged c t)
  assume "wf_world w"
  then show ?thesis using TokenChanged
    by (simp add: wf_world_def deliver_def deliver_to_frame)
qed

text \<open>Every state the module can reach from the start is well formed.\<close>

lemma wf_run: "wf_world w \<Longrightarrow> wf_world (run e acts w)"
  by (induction acts arbitrary: w) (simp_all add: wf_step)

lemma mirrors_setup:
  assumes "mirrors c r w"
  shows "mirrors c r (snd (VueFireAppCheck e options h app w))"
proof (cases "isClient e")
  case False
  then show ?thesis using assms by (simp add: VueFireAppCheck_def)
next
  case True
  show ?thesis
    using assms
    by (cases "initializeAppCheck e (before_initialize options app w) h options")
       (auto simp: mirrors_def wf_world_def setup_cells setup_listeners True list_all_iff)
qed

lemma mirrors_deliver:
  "mirrors c r w \<Longrightarrow> mirrors c r (deliver c' t w)"
  by (simp add: mirrors_def wf_world_def deliver_def deliver_to_frame)

lemma mirrors_step:
  "mirrors c r w \<Longrightarrow> mirrors c r (step e a w)"
proof (cases a)
  case (Setup options firebaseApp app)
  assume "mirrors c r w"
  then show ?thesis using Setup by (simp add: mirrors_setup)
next
  case (Lookup name)
  assume "mirrors c r w"
  then show ?thesis using Lookup by (simp add: useAppCheck_def split: sum.splits)
next
  case (FetchToken name forceRefresh)
  assume "mirrors c r w"
  then show ?thesis using FetchToken
    by (simp add: getAppCheckToken_def useAppCheck_def mirrors_def wf_world_def
          split: sum.splits option.splits)
next
  case (TokenChanged c' t)
  assume "mirrors c r w"
  then show ?thesis using TokenChanged by (simp add: mirrors_deliver)
qed

lemma mirrors_run:
  "mirrors c r w \<Longrightarrow> mirrors c r (run e acts w)"
  by (induction acts arbitrary: w) (simp_all add: mirrors_step)

lemma mirrors_deliver_cell:
  assumes "mirrors c r w"
  shows "cells (deliver c' t w) ! r = (if c' = c then Some (token t) else cells w ! r)"
proof -
  have len: "r < length (cells w)" using assms by (simp add: mirrors_def)
  have mem: "(c', r) \<in> set (listeners w) \<longleftrightarrow> c' = c"
    using assms by (auto simp: mirrors_def list_all_iff)
  show ?thesis
    by (simp add: deliver_def deliver_to_cell [OF len] mem)
qed

lemma mirrors_step_other:
  assumes "mirrors c r w" and "\<not> is_change_of c a"
  shows "cells (step e a w) ! r = cells w ! r"
proof (cases a)
  case (Setup options firebaseApp app)
  have "r < length (cells w)" using assms(1) by (simp add: mirrors_def)
  then show ?thesis using Setup by (simp add: setup_cells nth_append)
next
  case (Lookup name)
  then show ?thesis by (simp add: useAppCheck_def split: sum.splits)
next
  case (FetchToken name forceRefresh)
  then show ?thesis
    by (simp add: getAppCheckToken_def useAppCheck_def split: sum.splits option.splits)
next
  case (TokenChanged c' t)
  then show ?thesis using assms by (simp add: mirrors_deliver_cell)
qed

lemma mirrors_run_other:
  "mirrors c r w \<Longrightarrow> \<not> list_ex (is_change_of c) acts \<Longrightarrow>
   cells (run e acts w) ! r = cells w ! r"
proof (induction acts arbitrary: w)
  case Nil
  then show ?case by simp
next
  case (Cons a acts)
  have "cells (run e acts (step e a w)) ! r = cells (step e a w) ! r"
    using Cons by (simp add: mirrors_step)
  then show ?case using Cons.prems by (simp add: mirrors_step_other)
qed

lemma run_append: "run e (xs @ ys) w = run e ys (run e xs w)"
  by (induction xs arbitrary: w) simp_all

lemma mirrors_after_setup:
  assumes "wf_world w" and "isClient e"
    and "initializeAppCheck e (before_initialize options app w) h options = Inr c"
  shows "mirrors c (length (cells w)) (snd (VueFireAppCheck e options h app w))"
  using assms
  by (auto simp: mirrors_def wf_world_def setup_cells setup_listeners list_all_iff)

text \<open>Until the SDK reports a first token change of the client, the cell stays unset.\<close>

lemma cell_unset_until_first_token:
  assumes "wf_world w" and "isClient e"
    and "initializeAppCheck e (before_initialize options app w) h options = Inr c"
    and "\<not> list_ex (is_change_of c) acts"
  shows "cells (run e acts (snd (VueFireAppCheck e options h app w))) ! length (cells w) = None"
proof -
  let ?w1 = "snd (VueFireAppCheck e options h app w)"
  have "cells (run e acts ?w1) ! length (cells w) = cells ?w1 ! length (cells w)"
    by (rule mirrors_run_other [OF mirrors_after_setup [OF assms(1-3)] assms(4)])
  then show ?thesis using assms(2) by (simp add: setup_cells)
qed

text \<open>
  Claim C7. Let the setup routine run in a browser, in any well-formed state, and let the
  SDK hand out the client \<open>c\<close>. The routine provides a fresh cell to the Vue app.
  Whatever happens afterwards (token changes of this or of other clients, further setups,
  lookups, token fetches), the cell holds the token of the most recent token change of
  \<open>c\<close>: after \<open>earlier\<close>, a change to \<open>t\<close>, and then \<open>later\<close> with no change of \<open>c\<close> in
  it, the cell holds the token of \<open>t\<close>. Nothing of \<open>earlier\<close> shows, and a repeated token
  is written again like any other.
\<close>

theorem cell_holds_latest_token:
  assumes "wf_world w" and "isClient e"
    and "initializeAppCheck e (before_initialize options app w) h options = Inr c"
    and "\<not> list_ex (is_change_of c) later"
  shows "useAppCheckToken app (snd (VueFireAppCheck e options h app w)) = Some (length (cells w)) \<and>
    cells (run e (earlier @ TokenChanged c t # later) (snd (VueFireAppCheck e options h app w)))
      ! length (cells w) = Some (token t)"
proof -
  let ?w1 = "snd (VueFireAppCheck e options h app w)"
  let ?r = "length (cells w)"
  have m1: "mirrors c ?r (run e earlier ?w1)"
    using assms(1-3) by (simp add: mirrors_after_setup mirrors_run)
  have m2: "mirrors c ?r (deliver c t (run e earlier ?w1))"
    using m1 by (rule mirrors_deliver)
  have "cells (run e later (deliver c t (run e earlier ?w1))) ! ?r
          = cells (deliver c t (run e earlier ?w1)) ! ?r"
    using m2 assms(4) by (rule mirrors_run_other)
  also have "\<dots> = Some (token t)"
    using m1 by (simp add: mirrors_deliver_cell)
  finally have cell: "cells (run e (earlier @ TokenChanged c t # later) ?w1) ! ?r = Some (token t)"
    by (simp add: run_append)
  have "useAppCheckToken app ?w1 = Some ?r"
    using assms(2)
    by (simp add: useAppCheckToken_def setup_defs Let_def split: sum.splits option.splits)
  then show ?thesis using cell by simp
qed

theorem cell_holds_latest_token_witness:
  "wf_world init_world \<and> isClient (demo_env True 7) \<and>
   initializeAppCheck (demo_env True 7) (before_initialize (demo_options None) 0 init_world) 0
     (demo_options None) = Inr 7 \<and>
   \<not> list_ex (is_change_of 7) [TokenChanged 8 \<lparr>token = ''other''\<rparr>, Lookup None] \<and>
   useAppCheckToken 0 (snd (VueFireAppCheck (demo_env True 7) (demo_options None) 0 0 init_world))
     = Some 0 \<and>
   cells (run (demo_env True 7)
      ([TokenChanged 7 \<lparr>token = ''abc''\<rparr>] @ TokenChanged 7 \<lparr>token = ''xyz''\<rparr> #
         [TokenChanged 8 \<lparr>token = ''other''\<rparr>, Lookup None])
      (snd (VueFireAppCheck (demo_env True 7) (demo_options None) 0 0 init_world))) ! 0
     = Some ''xyz''"
proof -
  have a: "wf_world init_world" by (rule wf_init_world)
  have b: "isClient (demo_env True 7)" by (simp add: demo_env_def)
  have c: "initializeAppCheck (demo_env True 7) (before_initialize (demo_options None) 0 init_world) 0
     (demo_options None) = Inr 7" by (simp add: demo_env_def)
  have d: "\<not> list_ex (is_change_of 7) [TokenChanged 8 \<lparr>token = ''other''\<rparr>, Lookup None]"
    by simp
  have l: "length (cells init_world) = 0" by (simp add: init_world_def)
  show ?thesis
    using cell_holds_latest_token [where earlier = "[TokenChanged 7 \<lparr>token = ''abc''\<rparr>]"
      and t = "\<lparr>token = ''xyz''\<rparr>", OF a b c d] a b c d l
    by simp
qed

section \<open>The registered client is stable\<close>

text \<open>
  Claim C8, as stated, fails outside a browser: there the setup routine, run once for a
  Firebase app, returns normally on line 51 and never reaches line 66, so the registry
  has no entry for the app and \<^verbatim>\<open>useAppCheck\<close> returns \<^verbatim>\<open>undefined\<close>, not a client.
\<close>

theorem lookup_after_server_setup_counterexample:
  "\<not> isClient (demo_env False 7) \<and>
   fst (VueFireAppCheck (demo_env False 7) (demo_options None) 0 0 init_world) = Inr () \<and>
   AppCheckMap (snd (VueFireAppCheck (demo_env False 7) (demo_options None) 0 0 init_world)) 0
     = None \<and>
   fst (useAppCheck (demo_env False 7) None
     (snd (VueFireAppCheck (demo_env False 7) (demo_options None) 0 0 init_world))) = Inr None"
  by (simp add: VueFireAppCheck_def useAppCheck_def demo_env_def init_world_def)

text \<open>
  Claim C8, amended. Let the setup routine run in a browser for the Firebase app \<open>h\<close>, and
  let the SDK hand out the client \<open>c\<close>. As long as the routine is not run for \<open>h\<close> again,
  whatever else happens (setups of other apps, earlier lookups, token fetches, token
  changes), \<^verbatim>\<open>useAppCheck\<close> returns \<open>c\<close>, the one client the registry holds for \<open>h\<close>, and
  the state after the lookup is the state before it.
\<close>

theorem lookup_stable_after_setup:
  assumes "isClient e"
    and "initializeAppCheck e (before_initialize options app w) h options = Inr c"
    and "useFirebaseApp e name = Inr h"
    and "\<not> list_ex (is_setup_of h) acts"
  shows "useAppCheck e name (run e acts (snd (VueFireAppCheck e options h app w)))
     = (Inr (Some c), run e acts (snd (VueFireAppCheck e options h app w)))"
proof -
  let ?w1 = "snd (VueFireAppCheck e options h app w)"
  have "AppCheckMap ?w1 h = Some c"
    using assms(1,2) by (simp add: VueFireAppCheck_def Let_def)
  then have "AppCheckMap (run e acts ?w1) h = Some c"
    using assms(4) by (simp add: run_AppCheckMap)
  then show ?thesis using assms(3) by (simp add: useAppCheck_def)
qed

theorem lookup_stable_after_setup_witness:
  "isClient (demo_env True 7) \<and>
   initializeAppCheck (demo_env True 7) (before_initialize (demo_options None) 0 init_world) 0
     (demo_options None) = Inr 7 \<and>
   useFirebaseApp (demo_env True 7) None = Inr 0 \<and>
   \<not> list_ex (is_setup_of 0)
      [Lookup None, Setup (demo_options None) 1 1, TokenChanged 7 \<lparr>token = ''abc''\<rparr>,
       FetchToken None (Some True)] \<and>
   fst (useAppCheck (demo_env True 7) None
     (run (demo_env True 7)
        [Lookup None, Setup (demo_options None) 1 1, TokenChanged 7 \<lparr>token = ''abc''\<rparr>,
         FetchToken None (Some True)]
        (snd (VueFireAppCheck (demo_env True 7) (demo_options None) 0 0 init_world))))
     = Inr (Some 7)"
proof -
  have b: "isClient (demo_env True 7)" by (simp add: demo_env_def)
  have c: "initializeAppCheck (demo_env True 7) (before_initialize (demo_options None) 0 init_world) 0
     (demo_options None) = Inr 7" by (simp add: demo_env_def)
  have r: "useFirebaseApp (demo_env True 7) None = Inr 0" by (simp add: demo_env_def)
  have n: "\<not> list_ex (is_setup_of 0)
      [Lookup None, Setup (demo_options None) 1 1, TokenChanged 7 \<lparr>token = ''abc''\<rparr>,
       FetchToken None (Some True)]" by simp
  show ?thesis
    using lookup_stable_after_setup [OF b c r n] b c r n by simp
qed

end
